theory Spec2Isabelle
  imports Main "HOL-Library.Sublist" "HOL-Library.Char_ord" "HOL-Library.List_Lexorder"
    "HOL-Library.Multiset"
begin

section \<open>Python strings\<close>

text \<open>
  Text is modelled as ASCII: a \<^typ>\<open>string\<close> is a list of 8-bit characters. The
  character classes below are the ASCII part of what Python's \<^verbatim>\<open>str.isspace\<close>,
  \<^verbatim>\<open>\s\<close>, \<^verbatim>\<open>\d\<close> and \<^verbatim>\<open>\w\<close> accept; Unicode digits, Unicode whitespace and
  the case mappings of non-ASCII letters are outside the model.
\<close>

definition is_space :: "char \<Rightarrow> bool" where
  "is_space c = (let n = (of_char c :: nat) in (9 \<le> n \<and> n \<le> 13) \<or> (28 \<le> n \<and> n \<le> 32))"

definition is_digit :: "char \<Rightarrow> bool" where
  "is_digit c = (let n = (of_char c :: nat) in 48 \<le> n \<and> n \<le> 57)"

definition is_upper :: "char \<Rightarrow> bool" where
  "is_upper c = (let n = (of_char c :: nat) in 65 \<le> n \<and> n \<le> 90)"

definition is_word :: "char \<Rightarrow> bool" where
  "is_word c = (let n = (of_char c :: nat) in
     (48 \<le> n \<and> n \<le> 57) \<or> (65 \<le> n \<and> n \<le> 90) \<or> n = 95 \<or> (97 \<le> n \<and> n \<le> 122))"

definition lower_char :: "char \<Rightarrow> char" where
  "lower_char c = (if is_upper c then char_of (of_char c + (32 :: nat)) else c)"

text \<open>\<^verbatim>\<open>str.lower()\<close>\<close>

definition lower :: "string \<Rightarrow> string" where
  "lower s = map lower_char s"

text \<open>\<^verbatim>\<open>str.strip()\<close>: leading and trailing whitespace removed.\<close>

definition strip :: "string \<Rightarrow> string" where
  "strip s = rev (dropWhile is_space (rev (dropWhile is_space s)))"

text \<open>\<^verbatim>\<open>p in s\<close> on strings: \<open>p\<close> occurs in \<open>s\<close> as a contiguous run.\<close>

fun str_in :: "string \<Rightarrow> string \<Rightarrow> bool" where
  "str_in p [] = (p = [])"
| "str_in p (c # cs) = (prefix p (c # cs) \<or> str_in p cs)"

text \<open>\<^verbatim>\<open>int(s)\<close> on a run of ASCII digits.\<close>

definition digit_val :: "char \<Rightarrow> int" where
  "digit_val c = int (of_char c) - 48"

definition int_of_digits :: "string \<Rightarrow> int" where
  "int_of_digits ds = foldl (\<lambda>acc c. 10 * acc + digit_val c) 0 ds"

section \<open>Date normalizer (job\_trend\_analyzer/utils/data\_parser.py, parse\_relative\_date)\<close>

text \<open>
  A calendar date is its proleptic Gregorian ordinal (\<^verbatim>\<open>date.toordinal()\<close>): day 1 is
  0001-01-01, the smallest date Python can represent.
\<close>

type_synonym date = int

datatype py_exception = OverflowError | ParserError


text \<open>
  \<^verbatim>\<open>(current_time - timedelta(days=n)).date()\<close>: building the timedelta raises
  OverflowError when \<open>n\<close> exceeds 999999999 days, and the subtraction raises
  OverflowError when the result would lie before 0001-01-01.
\<close>

definition minus_days :: "date \<Rightarrow> int \<Rightarrow> py_exception + date" where
  "minus_days today n =
     (if n > 999999999 then Inl OverflowError
      else if today - n < 1 then Inl OverflowError
      else Inr (today - n))"

text \<open>
  One attempt of the regular expression \<^verbatim>\<open>(\d+)\s+UNIT(s)?\s+ago\<close> at the head of the
  text; the result is group 1. Digits, whitespace and the letters that follow are
  disjoint classes, so greedy matching never has to backtrack.
\<close>

definition ago_match_here :: "string \<Rightarrow> string \<Rightarrow> string option" where
  "ago_match_here unit s =
     (let ds = takeWhile is_digit s; r1 = dropWhile is_digit s;
          r2 = dropWhile is_space r1 in
      if ds = [] \<or> r2 = r1 \<or> \<not> prefix unit r2 then None
      else
        let r3 = drop (length unit) r2;
            r4 = (if prefix ''s'' r3 then drop 1 r3 else r3);
            r5 = dropWhile is_space r4 in
        if r5 = r4 \<or> \<not> prefix ''ago'' r5 then None else Some ds)"

text \<open>\<^verbatim>\<open>re.search\<close>: the leftmost position at which the pattern matches.\<close>

fun ago_search :: "string \<Rightarrow> string \<Rightarrow> string option" where
  "ago_search unit [] = None"
| "ago_search unit (c # cs) =
     (case ago_match_here unit (c # cs) of
        Some ds \<Rightarrow> Some ds
      | None \<Rightarrow> ago_search unit cs)"

text \<open>
  The function itself. \<open>today\<close> is \<^verbatim>\<open>datetime.now().date()\<close>; \<open>dateparser_parse\<close> is
  the third-party fallback parser (already applied to its settings), which may raise or
  return nothing. The argument is \<open>None\<close> for Python's \<^verbatim>\<open>None\<close>/NaN.
\<close>

definition parse_relative_date ::
  "date \<Rightarrow> (string \<Rightarrow> py_exception + date option) \<Rightarrow> string option \<Rightarrow> py_exception + date option" where
  "parse_relative_date today dateparser_parse date_str =
     (case date_str of
        None \<Rightarrow> Inr None
      | Some raw \<Rightarrow>
          if raw = [] then Inr None
          else
            let date_str_lower = strip (lower raw) in
            if list_ex (\<lambda>term. str_in term date_str_lower)
                 [''just posted'', ''posted today'', ''active today'', ''today'']
            then Inr (Some today)
            else (case ago_search ''day'' date_str_lower of
              Some ds \<Rightarrow> map_sum id Some (minus_days today (int_of_digits ds))
            | None \<Rightarrow>
              if str_in ''hour'' date_str_lower \<or> str_in ''minute'' date_str_lower
                 \<or> str_in ''moment'' date_str_lower
              then Inr (Some today)
              else (case ago_search ''week'' date_str_lower of
                Some ds \<Rightarrow> map_sum id Some (minus_days today (7 * int_of_digits ds))
              | None \<Rightarrow>
                (case ago_search ''month'' date_str_lower of
                  Some ds \<Rightarrow> map_sum id Some (minus_days today (int_of_digits ds * 30))
                | None \<Rightarrow>
                  (case dateparser_parse raw of
                     Inr (Some d) \<Rightarrow> Inr (Some d)
                   | Inr None \<Rightarrow> Inr None
                   | Inl e \<Rightarrow> Inr None)))))"


section \<open>Skill extractor (job\_trend\_analyzer/utils/data\_parser.py, extract\_skills\_from\_text)\<close>

definition COMMON_SKILLS_literal :: "string list" where
  "COMMON_SKILLS_literal =
   [''python'', ''java'', ''c++'', ''c#'', ''javascript'', ''typescript'', ''html'', ''css'',
    ''sql'', ''nosql'', ''mongodb'', ''postgresql'', ''mysql'',
    ''react'', ''angular'', ''vue'', ''node.js'', ''express.js'', ''next.js'', ''reactjs'',
    ''vuejs'', ''angularjs'',
    ''django'', ''flask'', ''spring'', ''spring boot'', ''.net'', ''ruby on rails'', ''asp.net'',
    ''aws'', ''azure'', ''gcp'', ''docker'', ''kubernetes'', ''k8s'', ''terraform'', ''ansible'',
    ''ci/cd'', ''jenkins'', ''gitlab ci'', ''github actions'',
    ''machine learning'', ''ml'', ''deep learning'', ''dl'', ''data science'', ''data analysis'',
    ''artificial intelligence'', ''ai'', ''nlp'', ''computer vision'',
    ''pandas'', ''numpy'', ''scipy'', ''scikit-learn'', ''sklearn'', ''tensorflow'', ''keras'',
    ''pytorch'', ''opencv'',
    ''agile'', ''scrum'', ''kanban'', ''git'', ''github'', ''jira'', ''rest'', ''api'', ''graphql'',
    ''microservices'', ''restful apis'',
    ''big data'', ''hadoop'', ''spark'', ''kafka'', ''data warehousing'', ''etl'',
    ''data pipelines'', ''airflow'',
    ''cybersecurity'', ''information security'', ''penetration testing'', ''linux'', ''unix'',
    ''bash'', ''shell scripting'',
    ''devops'', ''sre'', ''ui/ux'', ''figma'', ''adobe xd'', ''sketch'', ''swift'', ''kotlin'',
    ''php'', ''laravel'', ''go'', ''golang'', ''rust'', ''scala'',
    ''power bi'', ''tableau'', ''excel'', ''communication'', ''problem solving'', ''teamwork'',
    ''leadership'', ''project management'',
    ''data visualization'', ''r'', ''statistics'', ''algorithms'', ''data structures'', ''oop'',
    ''object-oriented programming'',
    ''cloud computing'', ''serverless'', ''selenium'', ''beautifulsoup'', ''api development'']"

text \<open>\<^verbatim>\<open>COMMON_SKILLS = sorted(list(set([...])))\<close>\<close>

definition COMMON_SKILLS :: "string list" where
  "COMMON_SKILLS = sort (remdups COMMON_SKILLS_literal)"

text \<open>The skills for which the source tests plain containment instead of \<^verbatim>\<open>\b\<close>.\<close>

definition tricky_skills :: "string list" where
  "tricky_skills = [''.net'', ''c#'', ''c++'', ''node.js'', ''express.js'', ''react.js'',
                    ''vue.js'', ''asp.net'', ''ui/ux'']"

text \<open>
  \<^verbatim>\<open>\b\<close> holds between two neighbouring positions when exactly one of them is a word
  character; the outside of the text counts as a non-word character.
\<close>

definition word_opt :: "char option \<Rightarrow> bool" where
  "word_opt c = (case c of None \<Rightarrow> False | Some x \<Rightarrow> is_word x)"

definition at_boundary :: "char option \<Rightarrow> char option \<Rightarrow> bool" where
  "at_boundary before after = (word_opt before \<noteq> word_opt after)"

definition head_opt :: "string \<Rightarrow> char option" where
  "head_opt s = (case s of [] \<Rightarrow> None | c # _ \<Rightarrow> Some c)"

text \<open>
  The pattern \<^verbatim>\<open>\b\<close> + \<^verbatim>\<open>re.escape(skill)\<close> + \<^verbatim>\<open>\b\<close> tried at one position: \<open>prev\<close> is the
  character before the position, \<open>t\<close> the text from the position on. The escaped skill
  matches exactly the skill's own characters, and \<^verbatim>\<open>re.escape\<close> never yields an invalid
  pattern, so the \<^verbatim>\<open>except re.error\<close> branch of the source cannot be entered.
\<close>

definition word_match :: "char option \<Rightarrow> string \<Rightarrow> string \<Rightarrow> bool" where
  "word_match prev p t =
     (prefix p t
      \<and> at_boundary prev (head_opt t)
      \<and> at_boundary (if p = [] then prev else Some (last p)) (head_opt (drop (length p) t)))"

fun word_search :: "char option \<Rightarrow> string \<Rightarrow> string \<Rightarrow> bool" where
  "word_search prev p [] = word_match prev p []"
| "word_search prev p (c # cs) = (word_match prev p (c # cs) \<or> word_search (Some c) p cs)"

text \<open>\<^verbatim>\<open>re.search(r'\b' + skill_escaped + r'\b', text_blob_lower)\<close> as a truth value.\<close>

definition re_search_word :: "string \<Rightarrow> string \<Rightarrow> bool" where
  "re_search_word skill text = word_search None skill text"

definition skill_found :: "string \<Rightarrow> string \<Rightarrow> bool" where
  "skill_found text_blob_lower skill =
     (if skill \<in> set tricky_skills then str_in skill text_blob_lower
      else re_search_word skill text_blob_lower)"

text \<open>
  \<^verbatim>\<open>str.replace(old, new)\<close>: every non-overlapping occurrence, from the left. The source
  only calls it with a non-empty \<open>old\<close>.
\<close>

function replace :: "string \<Rightarrow> string \<Rightarrow> string \<Rightarrow> string" where
  "replace old new [] = []"
| "replace old new (c # cs) =
     (if old \<noteq> [] \<and> prefix old (c # cs)
      then new @ replace old new (drop (length old) (c # cs))
      else c # replace old new cs)"
  by pat_completeness auto
termination
  by (relation "measure (\<lambda>(old, new, s). length s)") auto

text \<open>The conditional expression of the set comprehension, branch by branch.\<close>

definition normalize_skill :: "string \<Rightarrow> string" where
  "normalize_skill skill =
     (if str_in ''.js'' skill then replace ''.js'' ''js'' skill
      else if ''react.js'' = skill then replace ''react.js'' ''reactjs'' skill
      else if ''vue.js'' = skill then replace ''vue.js'' ''vuejs'' skill
      else if ''express.js'' = skill then replace ''express.js'' ''expressjs'' skill
      else if ''node.js'' = skill then replace ''node.js'' ''nodejs'' skill
      else skill)"

text \<open>The loop over the vocabulary, adding to the Python set \<open>found_skills\<close>.\<close>

definition find_skills :: "string \<Rightarrow> string set" where
  "find_skills text_blob_lower =
     fold (\<lambda>skill found_skills.
             if skill = [] then found_skills
             else if skill_found text_blob_lower skill then insert skill found_skills
             else found_skills)
          COMMON_SKILLS {}"

definition extract_skills_from_text :: "string option \<Rightarrow> string list" where
  "extract_skills_from_text text_blob =
     (case text_blob of
        None \<Rightarrow> []
      | Some raw \<Rightarrow>
          if raw = [] then []
          else
            let text_blob_lower = lower raw;
                found_skills = find_skills text_blob_lower;
                normalized_skills = normalize_skill ` found_skills
            in sorted_list_of_set normalized_skills)"

section \<open>Skill aggregator (job\_trend\_analyzer/utils/data\_parser.py, analyze\_skills)\<close>

text \<open>
  An entry of the skills column: a missing value, a string, a list whose elements
  are given as their \<^verbatim>\<open>str()\<close>, or a value of any other type.
\<close>

datatype skill_entry = Missing | Text string | Listed "string list" | Other

text \<open>\<^verbatim>\<open>str.split(',')\<close>: the pieces between the delimiters, empty ones included.\<close>

fun split_on :: "char \<Rightarrow> string \<Rightarrow> string list" where
  "split_on d [] = [[]]"
| "split_on d (c # cs) =
     (if c = d then [] # split_on d cs
      else (case split_on d cs of
              [] \<Rightarrow> [[c]]
            | w # ws \<Rightarrow> (c # w) # ws))"

text \<open>
  A \<^verbatim>\<open>collections.Counter\<close>: keys in the order of first insertion, each with its count.
\<close>

type_synonym counter = "(string \<times> nat) list"

fun counter_add :: "string \<Rightarrow> counter \<Rightarrow> counter" where
  "counter_add k [] = [(k, 1)]"
| "counter_add k ((k', n) # kvs) =
     (if k = k' then (k', n + 1) # kvs else (k', n) # counter_add k kvs)"

definition Counter :: "string list \<Rightarrow> counter" where
  "Counter xs = foldl (\<lambda>c k. counter_add k c) [] xs"

text \<open>\<^verbatim>\<open>counter[k]\<close>: a key that was never counted reads as 0.\<close>

definition counter_get :: "counter \<Rightarrow> string \<Rightarrow> nat" where
  "counter_get c k = (case map_of c k of None \<Rightarrow> 0 | Some n \<Rightarrow> n)"

text \<open>The body of the loop: \<open>current_skills\<close> for one entry.\<close>

definition current_skills :: "skill_entry \<Rightarrow> string list" where
  "current_skills skill_entry =
     (case skill_entry of
        Text s \<Rightarrow>
          let cleaned = strip s;
              cleaned_entry =
                (if prefix ''['' cleaned \<and> suffix '']'' cleaned
                 then butlast (drop 1 cleaned) else cleaned)
          in map (\<lambda>s. lower (strip s)) (filter (\<lambda>s. strip s \<noteq> []) (split_on CHR '','' cleaned_entry))
      | Listed items \<Rightarrow> map (\<lambda>s. lower (strip s)) (filter (\<lambda>s. strip s \<noteq> []) items)
      | Missing \<Rightarrow> []
      | Other \<Rightarrow> [])"

text \<open>The argument is \<open>None\<close> when the caller passes \<^verbatim>\<open>None\<close> instead of a Series.\<close>

definition analyze_skills :: "skill_entry list option \<Rightarrow> counter" where
  "analyze_skills skills_series =
     (case skills_series of
        None \<Rightarrow> Counter []
      | Some entries \<Rightarrow>
          let dropna = filter (\<lambda>e. e \<noteq> Missing) entries in
          if dropna = [] then Counter []
          else
            Counter (fold (\<lambda>skill_entry all_skills_flat_list.
                             all_skills_flat_list @ filter (\<lambda>s. s \<noteq> []) (current_skills skill_entry))
                          dropna []))"

section \<open>Job record store (job\_trend\_analyzer/utils/db\_manager.py)\<close>

subsection \<open>DataFrames\<close>

text \<open>
  A cell of a DataFrame: \<^verbatim>\<open>None\<close>, a NaN/NaT, or any other value, given as its \<^verbatim>\<open>str()\<close>.
\<close>

datatype cell = PyNone | NaN | Str string

definition isna :: "cell \<Rightarrow> bool" where
  "isna c = (c = PyNone \<or> c = NaN)"

definition py_str :: "cell \<Rightarrow> string" where
  "py_str c = (case c of PyNone \<Rightarrow> ''None'' | NaN \<Rightarrow> ''nan'' | Str s \<Rightarrow> s)"

type_synonym series = "string \<rightharpoonup> cell"

record dataframe =
  columns :: "string list"
  records :: "series list"

text \<open>\<^verbatim>\<open>row.get(col)\<close>: the default \<^verbatim>\<open>None\<close> when the label is absent.\<close>

definition row_get :: "series \<Rightarrow> string \<Rightarrow> cell" where
  "row_get row col = (case row col of None \<Rightarrow> PyNone | Some v \<Rightarrow> v)"

text \<open>\<^verbatim>\<open>jobs_df[col] = v\<close>: a new column holding \<open>v\<close> in every row.\<close>

definition set_column :: "string \<Rightarrow> cell \<Rightarrow> dataframe \<Rightarrow> dataframe" where
  "set_column col v df =
     df\<lparr>columns := (if col \<in> set (columns df) then columns df else columns df @ [col]),
        records := map (\<lambda>row. row(col \<mapsto> v)) (records df)\<rparr>"

definition df_empty :: "dataframe \<Rightarrow> bool" where
  "df_empty df = (columns df = [] \<or> records df = [])"

subsection \<open>The database\<close>

text \<open>
  A row of table \<open>jobs\<close> (\<open>id_col\<close> is the column \<open>id\<close>). The text columns are written from \<^verbatim>\<open>str(...)\<close> values, so only
  \<open>parsed_date\<close> can hold NULL. Dates and timestamps are kept as the text SQLite stores
  and compares.
\<close>

record job =
  id_col :: nat
  title :: string
  company :: string
  location :: string
  skills :: string
  date_posted :: string
  parsed_date :: "string option"
  source :: string
  search_keyword :: string
  url :: string
  scraped_at :: string

text \<open>
  The database file: whether \<^verbatim>\<open>sqlite3.connect\<close> succeeds, the committed rows of \<open>jobs\<close>
  in rowid order, and the AUTOINCREMENT sequence. Faults of the engine after a
  successful connect (a full disk, a lock held by another process) are not modelled.
\<close>

record database =
  reachable :: bool
  jobs :: "job list"
  last_id :: nat

datatype sqlite_error = IntegrityError string | OperationalError string

definition connect :: "database \<Rightarrow> sqlite_error + database" where
  "connect db = (if reachable db then Inr db else Inl (OperationalError ''unable to open database file''))"

text \<open>
  \<^verbatim>\<open>cursor.execute(insert_query, data_tuple)\<close>: the UNIQUE constraint on \<open>url\<close> refuses a
  row whose url is already present; otherwise the row is appended with the next id and
  the engine's CURRENT\_TIMESTAMP.
\<close>

definition execute_insert :: "string \<Rightarrow> job \<Rightarrow> database \<Rightarrow> sqlite_error + database" where
  "execute_insert current_timestamp data_tuple db =
     (if url data_tuple \<in> set (map url (jobs db))
      then Inl (IntegrityError ''UNIQUE constraint failed: jobs.url'')
      else Inr (db\<lparr>jobs := jobs db @ [data_tuple\<lparr>id_col := last_id db + 1, scraped_at := current_timestamp\<rparr>],
                   last_id := last_id db + 1\<rparr>))"

subsection \<open>store\_jobs\<close>

record counters =
  inserted_rows :: nat
  skipped_due_to_duplicate :: nat
  error_rows :: nat

definition required_cols :: "string list" where
  "required_cols = [''title'', ''company'', ''location'', ''skills'', ''date_posted'',
                    ''parsed_date'', ''source'', ''search_keyword'', ''url'']"

text \<open>
  The loop that adds the missing columns; \<open>None\<close> is the early \<^verbatim>\<open>return 0\<close> taken when the
  \<open>url\<close> column is missing.
\<close>

fun add_missing_cols :: "string list \<Rightarrow> dataframe \<Rightarrow> dataframe option" where
  "add_missing_cols [] jobs_df = Some jobs_df"
| "add_missing_cols (col # cols) jobs_df =
     (if col \<notin> set (columns jobs_df) then
        (if col = ''parsed_date'' then add_missing_cols cols (set_column col NaN jobs_df)
         else if col = ''skills'' then add_missing_cols cols (set_column col (Str ''N/A'') jobs_df)
         else if col = ''url'' then None
         else add_missing_cols cols (set_column col PyNone jobs_df))
      else add_missing_cols cols jobs_df)"

definition data_tuple_of :: "series \<Rightarrow> job" where
  "data_tuple_of row =
     \<lparr>id_col = 0,
      title = py_str (row_get row ''title''),
      company = py_str (row_get row ''company''),
      location = py_str (row_get row ''location''),
      skills = py_str (row_get row ''skills''),
      date_posted = py_str (row_get row ''date_posted''),
      parsed_date = (if isna (row_get row ''parsed_date'') then None
                     else Some (py_str (row_get row ''parsed_date''))),
      source = py_str (row_get row ''source''),
      search_keyword = py_str (row_get row ''search_keyword''),
      url = strip (py_str (row_get row ''url'')),
      scraped_at = []\<rparr>"

text \<open>One iteration of \<^verbatim>\<open>for _, row in jobs_df.iterrows()\<close>.\<close>

definition store_row :: "string \<Rightarrow> series \<Rightarrow> database \<times> counters \<Rightarrow> database \<times> counters" where
  "store_row current_timestamp row st =
     (case st of (db, c) \<Rightarrow>
        if isna (row_get row ''url'') \<or> strip (py_str (row_get row ''url'')) = []
        then (db, c\<lparr>error_rows := error_rows c + 1\<rparr>)
        else
          (case execute_insert current_timestamp (data_tuple_of row) db of
             Inr db' \<Rightarrow> (db', c\<lparr>inserted_rows := inserted_rows c + 1\<rparr>)
           | Inl (IntegrityError e) \<Rightarrow>
               if str_in ''UNIQUE constraint failed: jobs.url'' e
               then (db, c\<lparr>skipped_due_to_duplicate := skipped_due_to_duplicate c + 1\<rparr>)
               else (db, c\<lparr>error_rows := error_rows c + 1\<rparr>)
           | Inl (OperationalError e) \<Rightarrow> (db, c\<lparr>error_rows := error_rows c + 1\<rparr>)))"

text \<open>
  The whole loop. \<open>clock i\<close> is the engine's CURRENT\_TIMESTAMP while row \<open>i\<close> of the batch
  is inserted.
\<close>

fun store_rows :: "(nat \<Rightarrow> string) \<Rightarrow> nat \<Rightarrow> series list \<Rightarrow> database \<times> counters \<Rightarrow> database \<times> counters" where
  "store_rows clock i [] st = st"
| "store_rows clock i (row # rows) st = store_rows clock (i + 1) rows (store_row (clock i) row st)"

definition no_counts :: counters where
  "no_counts = \<lparr>inserted_rows = 0, skipped_due_to_duplicate = 0, error_rows = 0\<rparr>"

text \<open>
  \<open>store_jobs_log\<close> is \<open>store_jobs\<close> together with the three counters of its final log
  line; the argument is \<open>None\<close> when the caller passes something that is not a DataFrame.
\<close>

definition store_jobs_log :: "(nat \<Rightarrow> string) \<Rightarrow> database \<Rightarrow> dataframe option \<Rightarrow> database \<times> counters" where
  "store_jobs_log clock db jobs_df =
     (case jobs_df of
        None \<Rightarrow> (db, no_counts)
      | Some df \<Rightarrow>
          if df_empty df then (db, no_counts)
          else
            (case add_missing_cols required_cols df of
               None \<Rightarrow> (db, no_counts)
             | Some df' \<Rightarrow>
                 (case connect db of
                    Inl e \<Rightarrow> (db, no_counts)
                  | Inr conn \<Rightarrow> store_rows clock 0 (records df') (conn, no_counts))))"

definition store_jobs :: "(nat \<Rightarrow> string) \<Rightarrow> database \<Rightarrow> dataframe option \<Rightarrow> database \<times> nat" where
  "store_jobs clock db jobs_df =
     (case store_jobs_log clock db jobs_df of (db', c) \<Rightarrow> (db', inserted_rows c))"

text \<open>A sequence of store calls, each with its own batch and clock.\<close>

fun store_calls :: "database \<Rightarrow> ((nat \<Rightarrow> string) \<times> dataframe option) list \<Rightarrow> database" where
  "store_calls db [] = db"
| "store_calls db ((clock, jobs_df) # calls) = store_calls (fst (store_jobs clock db jobs_df)) calls"

subsection \<open>fetch\_jobs\<close>

text \<open>
  SQLite's \<open>LIKE\<close>: \<open>%\<close> stands for any run of characters, \<open>_\<close> for any single
  character, and ASCII letters match without regard to case.
\<close>

fun like :: "string \<Rightarrow> string \<Rightarrow> bool" where
  "like [] t = (t = [])"
| "like (p # ps) [] = (p = CHR ''%'' \<and> like ps [])"
| "like (p # ps) (c # cs) =
     (if p = CHR ''%'' then like ps (c # cs) \<or> like (p # ps) cs
      else (p = CHR ''_'' \<or> lower_char p = lower_char c) \<and> like ps cs)"

text \<open>A truthy Python string: neither \<^verbatim>\<open>None\<close> nor empty.\<close>

definition truthy :: "string option \<Rightarrow> bool" where
  "truthy s = (case s of None \<Rightarrow> False | Some v \<Rightarrow> v \<noteq> [])"

text \<open>The WHERE clause built from the two optional filters.\<close>

definition where_clause :: "string option \<Rightarrow> string option \<Rightarrow> job \<Rightarrow> bool" where
  "where_clause keyword src row =
     ((truthy keyword \<longrightarrow> like (lower (''%'' @ the keyword @ ''%'')) (lower (search_keyword row)))
      \<and> (truthy src \<longrightarrow> lower (source row) = lower (the src)))"

text \<open>
  \<^verbatim>\<open>ORDER BY COALESCE(parsed_date, '1970-01-01') DESC, scraped_at DESC\<close>. Text is compared
  byte by byte. Rows that agree on both keys are kept in rowid order; SQLite leaves
  their order open.
\<close>

definition order_key :: "job \<Rightarrow> string \<times> string" where
  "order_key row = (case parsed_date row of None \<Rightarrow> ''1970-01-01'' | Some d \<Rightarrow> d, scraped_at row)"

definition key_ge :: "string \<times> string \<Rightarrow> string \<times> string \<Rightarrow> bool" where
  "key_ge a b = (fst a > fst b \<or> (fst a = fst b \<and> snd a \<ge> snd b))"

fun insert_desc :: "job \<Rightarrow> job list \<Rightarrow> job list" where
  "insert_desc r [] = [r]"
| "insert_desc r (x # xs) =
     (if key_ge (order_key r) (order_key x) then r # x # xs else x # insert_desc r xs)"

definition order_by_desc :: "job list \<Rightarrow> job list" where
  "order_by_desc rows = foldr insert_desc rows []"

text \<open>\<^verbatim>\<open>pd.read_sql_query(query, conn, params=params)\<close> on a fresh connection.\<close>

definition read_sql_query :: "database \<Rightarrow> string option \<Rightarrow> string option \<Rightarrow> sqlite_error + job list" where
  "read_sql_query db keyword src =
     (case connect db of
        Inl e \<Rightarrow> Inl e
      | Inr conn \<Rightarrow> Inr (order_by_desc (filter (where_clause keyword src) (jobs conn))))"

text \<open>
  \<open>fetch_jobs\<close> returns the DataFrame \<open>df\<close>, which starts out empty and is replaced only
  when the query succeeds: both \<^verbatim>\<open>except\<close> clauses log and fall through to the
  \<^verbatim>\<open>return df\<close>. The retyping of the two date columns with \<^verbatim>\<open>pd.to_datetime\<close> changes
  neither the rows nor their order and is left out.
\<close>

definition fetch_jobs :: "database \<Rightarrow> string option \<Rightarrow> string option \<Rightarrow> job list" where
  "fetch_jobs db keyword src =
     (case read_sql_query db keyword src of
        Inl e \<Rightarrow> []
      | Inr df \<Rightarrow> df)"

subsection \<open>Notions used in the statements about the skill functions\<close>


text \<open>
  The aggregation as the specification words it: one layer of surrounding brackets is
  taken off a string entry, the entry is split at the commas, each fragment is trimmed
  and lower-cased, and empty fragments are dropped; a missing entry contributes
  nothing, and neither does an entry that is not text or a list.
\<close>

definition unbracket :: "string \<Rightarrow> string" where
  "unbracket s = (if s \<noteq> [] \<and> hd s = CHR ''['' \<and> last s = CHR '']'' \<and> 2 \<le> length s
                  then butlast (tl s) else s)"

definition entry_tokens :: "skill_entry \<Rightarrow> string list" where
  "entry_tokens e =
     (case e of
        Missing \<Rightarrow> []
      | Text s \<Rightarrow> filter (\<lambda>x. x \<noteq> []) (map (\<lambda>f. lower (strip f)) (split_on CHR '','' (unbracket (strip s))))
      | Listed items \<Rightarrow> filter (\<lambda>x. x \<noteq> []) (map (\<lambda>f. lower (strip f)) items)
      | Other \<Rightarrow> [])"


subsection \<open>Notions used in the statements about the store\<close>

text \<open>The guard at the head of the loop body: the row is skipped and counted as an error.\<close>

definition url_rejected :: "series \<Rightarrow> bool" where
  "url_rejected row = (isna (row_get row ''url'') \<or> strip (py_str (row_get row ''url'')) = [])"

text \<open>What one iteration preserves.\<close>

definition step_ok :: "database \<times> counters \<Rightarrow> database \<times> counters \<Rightarrow> bool" where
  "step_ok st st' =
     ((distinct (map url (jobs (fst st))) \<longrightarrow> distinct (map url (jobs (fst st'))))
      \<and> length (jobs (fst st')) + inserted_rows (snd st) = length (jobs (fst st)) + inserted_rows (snd st')
      \<and> prefix (jobs (fst st)) (jobs (fst st'))
      \<and> reachable (fst st') = reachable (fst st))"


text \<open>A small batch and an empty, reachable database, for running the store on examples.\<close>

definition example_row :: "string \<Rightarrow> series" where
  "example_row u = [''title'' \<mapsto> Str ''Data Engineer'', ''company'' \<mapsto> Str ''Acme'',
     ''location'' \<mapsto> Str ''Remote'', ''skills'' \<mapsto> Str ''python, sql'',
     ''date_posted'' \<mapsto> Str ''3 days ago'', ''parsed_date'' \<mapsto> NaN,
     ''source'' \<mapsto> Str ''Indeed'', ''search_keyword'' \<mapsto> Str ''python'', ''url'' \<mapsto> Str u]"

definition example_df :: "string list \<Rightarrow> dataframe" where
  "example_df us = \<lparr>columns = required_cols, records = map example_row us\<rparr>"

definition empty_db :: database where
  "empty_db = \<lparr>reachable = True, jobs = [], last_id = 0\<rparr>"

definition example_clock :: "nat \<Rightarrow> string" where
  "example_clock i = ''2026-11-04 12:00:00''"


subsection \<open>Notions used in the statements about fetch\_jobs\<close>



text \<open>A table with five rows, one without a parsed date and one dated before 1970.\<close>

definition example_job :: "nat \<Rightarrow> string option \<Rightarrow> string \<Rightarrow> string \<Rightarrow> job" where
  "example_job n pd kw ts =
     \<lparr>id_col = n, title = ''Data Engineer'', company = ''Acme'', location = ''Remote'',
      skills = ''python, sql'', date_posted = ''3 days ago'', parsed_date = pd,
      source = ''Indeed'', search_keyword = kw, url = ''https://example.org/job/'' @ [char_of (48 + n)],
      scraped_at = ts\<rparr>"

definition example_db :: database where
  "example_db = \<lparr>reachable = True,
     jobs = [example_job 1 None ''Python Developer'' ''2026-11-04 12:00:00'',
             example_job 2 (Some ''2026-11-01'') ''java'' ''2026-11-04 12:00:00'',
             example_job 3 (Some ''2026-11-03'') ''python'' ''2026-11-04 12:00:00'',
             example_job 4 (Some ''2026-11-03'') ''python'' ''2026-11-04 12:00:05'',
             example_job 5 (Some ''1969-12-31'') ''cobol'' ''2026-11-04 12:00:00''],
     last_id = 5\<rparr>"


section \<open>Properties of the date normalizer\<close>



















text \<open>
  Claim C6 says that parse\_relative\_date never raises. The arithmetic of the
  \<open>N days ago\<close> rule is outside the only \<^verbatim>\<open>try\<close> block of the function: for the text
  \<open>9999999999 days ago\<close>, whatever the clock and the fallback parser, building the
  timedelta raises OverflowError and the exception reaches the caller.
\<close>

theorem parse_relative_date_raises:
  "parse_relative_date today dateparser_parse (Some ''9999999999 days ago'') = Inl OverflowError"
  by (simp add: parse_relative_date_def strip_def lower_def lower_char_def is_upper_def
      is_space_def ago_match_here_def is_digit_def int_of_digits_def digit_val_def minus_days_def)


section \<open>Properties of store\_jobs\<close>

lemma url_data_tuple_of: "url (data_tuple_of row) = strip (py_str (row_get row ''url''))"
  by (simp add: data_tuple_of_def)

lemma store_row_rejected:
  "url_rejected row \<Longrightarrow> store_row ts row (db, c) = (db, c\<lparr>error_rows := error_rows c + 1\<rparr>)"
  by (simp add: store_row_def url_rejected_def)

lemma store_row_duplicate:
  assumes "\<not> url_rejected row" "strip (py_str (row_get row ''url'')) \<in> set (map url (jobs db))"
  shows "store_row ts row (db, c) = (db, c\<lparr>skipped_due_to_duplicate := skipped_due_to_duplicate c + 1\<rparr>)"
proof -
  have "execute_insert ts (data_tuple_of row) db = Inl (IntegrityError ''UNIQUE constraint failed: jobs.url'')"
    using assms(2) by (simp add: execute_insert_def url_data_tuple_of del: set_map)
  moreover have "str_in ''UNIQUE constraint failed: jobs.url'' ''UNIQUE constraint failed: jobs.url''"
    by simp
  ultimately show ?thesis using assms(1) by (simp add: store_row_def url_rejected_def del: str_in.simps)
qed

lemma store_row_new:
  assumes "\<not> url_rejected row" "strip (py_str (row_get row ''url'')) \<notin> set (map url (jobs db))"
  shows "store_row ts row (db, c) =
           (db\<lparr>jobs := jobs db @ [(data_tuple_of row)\<lparr>id_col := last_id db + 1, scraped_at := ts\<rparr>],
               last_id := last_id db + 1\<rparr>,
            c\<lparr>inserted_rows := inserted_rows c + 1\<rparr>)"
  using assms by (simp add: store_row_def url_rejected_def execute_insert_def url_data_tuple_of del: set_map)

lemma store_row_cases:
  obtains (rejected) "url_rejected row" "store_row ts row (db, c) = (db, c\<lparr>error_rows := error_rows c + 1\<rparr>)"
  | (duplicate) "\<not> url_rejected row" "strip (py_str (row_get row ''url'')) \<in> set (map url (jobs db))"
      "store_row ts row (db, c) = (db, c\<lparr>skipped_due_to_duplicate := skipped_due_to_duplicate c + 1\<rparr>)"
  | (new) "\<not> url_rejected row" "strip (py_str (row_get row ''url'')) \<notin> set (map url (jobs db))"
      "store_row ts row (db, c) =
           (db\<lparr>jobs := jobs db @ [(data_tuple_of row)\<lparr>id_col := last_id db + 1, scraped_at := ts\<rparr>],
               last_id := last_id db + 1\<rparr>,
            c\<lparr>inserted_rows := inserted_rows c + 1\<rparr>)"
  using store_row_rejected store_row_duplicate store_row_new by blast

lemma step_ok_refl: "step_ok st st"
  by (simp add: step_ok_def)

lemma step_ok_trans: "step_ok a b \<Longrightarrow> step_ok b c \<Longrightarrow> step_ok a c"
  by (auto simp: step_ok_def)

lemma store_row_step_ok: "step_ok st (store_row ts row st)"
proof (cases st)
  case (Pair db c)
  show ?thesis
    by (rule store_row_cases[of row ts db c]) (auto simp: Pair step_ok_def url_data_tuple_of)
qed

lemma store_rows_step_ok: "step_ok st (store_rows clock i rows st)"
proof (induction rows arbitrary: i st)
  case Nil
  show ?case by (simp add: step_ok_refl)
next
  case (Cons row rows)
  have "step_ok st (store_row (clock i) row st)" by (rule store_row_step_ok)
  moreover have "step_ok (store_row (clock i) row st) (store_rows clock (i + 1) rows (store_row (clock i) row st))"
    by (rule Cons.IH)
  ultimately show ?case by (simp add: step_ok_trans)
qed

lemma store_jobs_log_step_ok: "step_ok (db, no_counts) (store_jobs_log clock db jobs_df)"
  by (auto simp: store_jobs_log_def connect_def step_ok_refl store_rows_step_ok
      split: option.splits sum.splits)

lemma store_jobs_distinct:
  "distinct (map url (jobs db)) \<Longrightarrow> distinct (map url (jobs (fst (store_jobs clock db jobs_df))))"
  using store_jobs_log_step_ok[of db clock jobs_df]
  by (simp add: store_jobs_def step_ok_def case_prod_beta)

lemma store_jobs_count:
  "length (jobs (fst (store_jobs clock db jobs_df))) = length (jobs db) + snd (store_jobs clock db jobs_df)"
  using store_jobs_log_step_ok[of db clock jobs_df]
  by (simp add: store_jobs_def step_ok_def no_counts_def case_prod_beta)

lemma store_calls_distinct:
  "distinct (map url (jobs db)) \<Longrightarrow> distinct (map url (jobs (store_calls db calls)))"
proof (induction calls arbitrary: db)
  case Nil
  then show ?case by simp
next
  case (Cons call calls)
  obtain clock jobs_df where call: "call = (clock, jobs_df)" by (cases call)
  have "distinct (map url (jobs (fst (store_jobs clock db jobs_df))))"
    using Cons.prems by (rule store_jobs_distinct)
  then show ?case unfolding call by (simp add: Cons.IH)
qed


lemma set_column_url:
  "col \<noteq> ''url'' \<Longrightarrow> map (\<lambda>row. row_get row ''url'') (records (set_column col v df)) = map (\<lambda>row. row_get row ''url'') (records df)"
  by (simp add: set_column_def row_get_def)

lemma add_missing_cols_url:
  "add_missing_cols cols df = Some df' \<Longrightarrow>
     map (\<lambda>row. row_get row ''url'') (records df') = map (\<lambda>row. row_get row ''url'') (records df)"
proof (induction cols arbitrary: df)
  case Nil
  then show ?case by simp
next
  case (Cons col cols)
  show ?case
  proof (cases "col \<in> set (columns df)")
    case True
    with Cons.prems have "add_missing_cols cols df = Some df'" by simp
    then show ?thesis by (rule Cons.IH)
  next
    case False
    with Cons.prems have ne: "col \<noteq> ''url''" by (auto split: if_splits)
    from False Cons.prems obtain v where "add_missing_cols cols (set_column col v df) = Some df'"
      by (auto split: if_splits)
    then have "map (\<lambda>row. row_get row ''url'') (records df') = map (\<lambda>row. row_get row ''url'') (records (set_column col v df))"
      by (rule Cons.IH)
    then show ?thesis using set_column_url[OF ne] by simp
  qed
qed

text \<open>A batch in which every record is rejected or already stored leaves the table alone.\<close>

lemma store_rows_nothing_new:
  assumes "\<forall>u\<in>set (map (\<lambda>row. row_get row ''url'') rows).
             isna u \<or> strip (py_str u) = [] \<or> strip (py_str u) \<in> set (map url (jobs db))"
  shows "fst (store_rows clock i rows (db, c)) = db
       \<and> inserted_rows (snd (store_rows clock i rows (db, c))) = inserted_rows c"
  using assms
proof (induction rows arbitrary: i c)
  case Nil
  then show ?case by simp
next
  case (Cons row rows)
  from Cons.prems have here: "url_rejected row \<or> strip (py_str (row_get row ''url'')) \<in> set (map url (jobs db))"
    by (auto simp: url_rejected_def)
  from Cons.prems have rest: "\<forall>u\<in>set (map (\<lambda>row. row_get row ''url'') rows).
             isna u \<or> strip (py_str u) = [] \<or> strip (py_str u) \<in> set (map url (jobs db))"
    by simp
  obtain c' where step: "store_row (clock i) row (db, c) = (db, c')" and ins: "inserted_rows c' = inserted_rows c"
    using here by (cases rule: store_row_cases[of row "clock i" db c]) auto
  show ?case using Cons.IH[OF rest, of "i + 1" c'] by (simp add: step ins)
qed

lemma store_jobs_nothing_new:
  assumes "\<forall>row\<in>set (records df). isna (row_get row ''url'') \<or> strip (py_str (row_get row ''url'')) = []
             \<or> strip (py_str (row_get row ''url'')) \<in> set (map url (jobs db))"
  shows "store_jobs clock db (Some df) = (db, 0)"
proof -
  have "store_rows clock 0 (records df') (db, no_counts) = (db, snd (store_rows clock 0 (records df') (db, no_counts)))
      \<and> inserted_rows (snd (store_rows clock 0 (records df') (db, no_counts))) = 0"
    if "add_missing_cols required_cols df = Some df'" for df'
  proof -
    have "set (map (\<lambda>row. row_get row ''url'') (records df')) = set (map (\<lambda>row. row_get row ''url'') (records df))"
      using add_missing_cols_url[OF that] by simp
    then have "\<forall>u\<in>set (map (\<lambda>row. row_get row ''url'') (records df')).
             isna u \<or> strip (py_str u) = [] \<or> strip (py_str u) \<in> set (map url (jobs db))"
      using assms by auto
    from store_rows_nothing_new[OF this, of clock 0 no_counts] show ?thesis
      by (simp add: no_counts_def prod_eq_iff)
  qed
  then show ?thesis
    by (auto simp: store_jobs_def store_jobs_log_def connect_def no_counts_def
        split: option.splits sum.splits prod.splits)
qed

text \<open>Two records with one url, not yet stored: exactly one row is inserted.\<close>

lemma columns_set_column: "set (columns df) \<subseteq> set (columns (set_column col v df))"
  by (auto simp: set_column_def)

lemma add_missing_cols_Some:
  "''url'' \<in> set (columns df) \<Longrightarrow> \<exists>df'. add_missing_cols cols df = Some df'"
proof (induction cols arbitrary: df)
  case Nil
  then show ?case by simp
next
  case (Cons col cols)
  have "''url'' \<in> set (columns (set_column col v df))" for v
    using Cons.prems columns_set_column by blast
  then show ?case using Cons.IH Cons.prems by auto
qed

lemma store_rows_twice:
  assumes "row_get r1 ''url'' = Str u" "row_get r2 ''url'' = Str u" "strip u \<noteq> []"
    "strip u \<notin> set (map url (jobs db))"
  shows "inserted_rows (snd (store_rows clock 0 [r1, r2] (db, no_counts))) = 1"
proof -
  have nr: "\<not> url_rejected r1" "\<not> url_rejected r2"
    using assms(1,2,3) by (simp_all add: url_rejected_def isna_def py_str_def)
  let ?db1 = "db\<lparr>jobs := jobs db @ [(data_tuple_of r1)\<lparr>id_col := last_id db + 1, scraped_at := clock 0\<rparr>],
               last_id := last_id db + 1\<rparr>"
  have s1: "store_row (clock 0) r1 (db, no_counts) = (?db1, no_counts\<lparr>inserted_rows := inserted_rows no_counts + 1\<rparr>)"
    using nr(1) assms(1,4) by (intro store_row_new) (simp_all add: py_str_def)
  have in1: "strip (py_str (row_get r2 ''url'')) \<in> set (map url (jobs ?db1))"
    using assms(1,2) by (simp add: url_data_tuple_of py_str_def)
  have s2: "store_row (clock 1) r2 (?db1, no_counts\<lparr>inserted_rows := inserted_rows no_counts + 1\<rparr>)
      = (?db1, no_counts\<lparr>inserted_rows := inserted_rows no_counts + 1,
                          skipped_due_to_duplicate := skipped_due_to_duplicate no_counts + 1\<rparr>)"
    using store_row_duplicate[OF nr(2) in1] by simp
  show ?thesis using s1 s2 by (simp add: no_counts_def)
qed

lemma store_jobs_same_url_twice:
  assumes "reachable db" "''url'' \<in> set (columns df)" "records df = [r1, r2]"
    "row_get r1 ''url'' = Str u" "row_get r2 ''url'' = Str u" "strip u \<noteq> []"
    "strip u \<notin> set (map url (jobs db))"
  shows "snd (store_jobs clock db (Some df)) = 1"
proof -
  obtain df' where df': "add_missing_cols required_cols df = Some df'"
    using add_missing_cols_Some[OF assms(2)] by blast
  have "map (\<lambda>row. row_get row ''url'') (records df') = [Str u, Str u]"
    using add_missing_cols_url[OF df'] assms(3,4,5) by simp
  then obtain r1' r2' where rs: "records df' = [r1', r2']"
    "row_get r1' ''url'' = Str u" "row_get r2' ''url'' = Str u"
    by (auto simp: map_eq_Cons_conv)
  have ne: "\<not> df_empty df" using assms(2,3) by (auto simp: df_empty_def)
  show ?thesis
    using assms(1) ne df' store_rows_twice[OF rs(2,3) assms(6,7), of clock]
    by (simp add: store_jobs_def store_jobs_log_def connect_def rs(1) case_prod_beta)
qed

lemma strip_empty_iff: "strip s = [] \<longleftrightarrow> (\<forall>c\<in>set s. is_space c)"
proof -
  have "strip s = [] \<longleftrightarrow> dropWhile is_space (rev (dropWhile is_space s)) = []"
    by (simp add: strip_def)
  also have "\<dots> \<longleftrightarrow> (\<forall>c\<in>set (dropWhile is_space s). is_space c)"
    by (simp add: dropWhile_eq_Nil_conv)
  also have "\<dots> \<longleftrightarrow> dropWhile is_space s = []"
    by (metis dropWhile_eq_Nil_conv dropWhile_idem)
  also have "\<dots> \<longleftrightarrow> (\<forall>c\<in>set s. is_space c)"
    by (simp add: dropWhile_eq_Nil_conv)
  finally show ?thesis .
qed

lemma last_dropWhile: "dropWhile P xs \<noteq> [] \<Longrightarrow> last (dropWhile P xs) = last xs"
  by (induction xs) (auto split: if_splits)

lemma strip_ends:
  assumes "strip s \<noteq> []"
  shows "\<not> is_space (hd (strip s))" "\<not> is_space (last (strip s))"
proof -
  let ?t = "dropWhile is_space s"
  let ?r = "dropWhile is_space (rev ?t)"
  have r: "?r \<noteq> []" using assms by (simp add: strip_def)
  have t: "?t \<noteq> []"
  proof
    assume "?t = []"
    with r show False by (metis dropWhile.simps(1) rev.simps(1))
  qed
  have "last (strip s) = hd ?r" using r by (simp add: strip_def last_rev)
  then show "\<not> is_space (last (strip s))" using r hd_dropWhile by metis
  have "hd (strip s) = last ?r" using r by (simp add: strip_def hd_rev)
  also have "\<dots> = last (rev ?t)" using r by (rule last_dropWhile)
  also have "\<dots> = hd ?t" using t by (simp add: last_rev)
  finally show "\<not> is_space (hd (strip s))" using t hd_dropWhile by metis
qed

lemma store_row_jobs:
  assumes "j \<in> set (jobs (fst (store_row ts row (db, c))))"
  shows "j \<in> set (jobs db) \<or> (\<not> url_rejected row \<and> url j = strip (py_str (row_get row ''url'')))"
  using assms
  by (cases rule: store_row_cases[of row ts db c]) (auto simp: url_data_tuple_of)

lemma store_rows_jobs:
  assumes "j \<in> set (jobs (fst (store_rows clock i rows st)))"
  shows "j \<in> set (jobs (fst st)) \<or> (\<exists>row\<in>set rows. \<not> url_rejected row \<and> url j = strip (py_str (row_get row ''url'')))"
  using assms
proof (induction rows arbitrary: i st)
  case Nil
  then show ?case by simp
next
  case (Cons row rows)
  from Cons.prems have "j \<in> set (jobs (fst (store_rows clock (i + 1) rows (store_row (clock i) row st))))"
    by simp
  from Cons.IH[OF this] show ?case
  proof
    assume "j \<in> set (jobs (fst (store_row (clock i) row st)))"
    then show ?thesis using store_row_jobs[of j "clock i" row "fst st" "snd st"] by auto
  next
    assume "\<exists>row\<in>set rows. \<not> url_rejected row \<and> url j = strip (py_str (row_get row ''url''))"
    then show ?thesis by auto
  qed
qed

lemma store_jobs_new_urls:
  assumes "j \<in> set (jobs (fst (store_jobs clock db jobs_df)))" "j \<notin> set (jobs db)"
  shows "\<exists>df row. jobs_df = Some df \<and> row \<in> set (records df)
           \<and> \<not> isna (row_get row ''url'') \<and> url j = strip (py_str (row_get row ''url''))
           \<and> url j \<noteq> [] \<and> \<not> is_space (hd (url j)) \<and> \<not> is_space (last (url j))"
proof -
  from assms obtain df df' where df: "jobs_df = Some df" "add_missing_cols required_cols df = Some df'"
    and j: "j \<in> set (jobs (fst (store_rows clock 0 (records df') (db, no_counts))))"
    by (auto simp: store_jobs_def store_jobs_log_def connect_def split: option.splits sum.splits prod.splits if_splits)
  from store_rows_jobs[OF j] assms(2) obtain row' where row': "row' \<in> set (records df')"
    "\<not> url_rejected row'" "url j = strip (py_str (row_get row' ''url''))" by auto
  have "row_get row' ''url'' \<in> set (map (\<lambda>row. row_get row ''url'') (records df'))"
    using row'(1) by simp
  then have "row_get row' ''url'' \<in> set (map (\<lambda>row. row_get row ''url'') (records df))"
    using add_missing_cols_url[OF df(2)] by simp
  then obtain row where row: "row \<in> set (records df)" "row_get row ''url'' = row_get row' ''url''"
    by auto
  have ne: "strip (py_str (row_get row ''url'')) \<noteq> []" and na: "\<not> isna (row_get row ''url'')"
    using row'(2) row(2) by (simp_all add: url_rejected_def)
  show ?thesis
    using df(1) row row'(3) na ne strip_ends[OF ne] by auto
qed

text \<open>
  Claim C1. After any sequence of store calls the table holds at most one row per url
  (the urls stay pairwise distinct); the count a call returns is the number of rows it
  added; a record whose url is already stored is counted as a duplicate, not as an
  error, and the loop goes on with the next record; a batch of two records with one
  new url inserts exactly one row; and a call whose records are all already stored
  (or rejected) inserts nothing and returns 0.
\<close>

theorem store_jobs_one_row_per_url:
  "(distinct (map url (jobs db)) \<longrightarrow> distinct (map url (jobs (store_calls db calls))))
   \<and> length (jobs (fst (store_jobs clock db jobs_df))) = length (jobs db) + snd (store_jobs clock db jobs_df)
   \<and> (\<not> isna (row_get row ''url'') \<and> strip (py_str (row_get row ''url'')) \<noteq> []
        \<and> strip (py_str (row_get row ''url'')) \<in> set (map url (jobs db)) \<longrightarrow>
      store_rows clock i (row # rows) (db, c)
        = store_rows clock (i + 1) rows (db, c\<lparr>skipped_due_to_duplicate := skipped_due_to_duplicate c + 1\<rparr>))
   \<and> (reachable db \<and> ''url'' \<in> set (columns df) \<and> records df = [r1, r2]
        \<and> row_get r1 ''url'' = Str u \<and> row_get r2 ''url'' = Str u \<and> strip u \<noteq> []
        \<and> strip u \<notin> set (map url (jobs db)) \<longrightarrow>
      snd (store_jobs clock db (Some df)) = 1)
   \<and> ((\<forall>row\<in>set (records df'). isna (row_get row ''url'') \<or> strip (py_str (row_get row ''url'')) = []
          \<or> strip (py_str (row_get row ''url'')) \<in> set (map url (jobs db))) \<longrightarrow>
      store_jobs clock db (Some df') = (db, 0))"
proof (intro conjI impI)
  assume "distinct (map url (jobs db))"
  then show "distinct (map url (jobs (store_calls db calls)))" by (rule store_calls_distinct)
next
  show "length (jobs (fst (store_jobs clock db jobs_df))) = length (jobs db) + snd (store_jobs clock db jobs_df)"
    by (rule store_jobs_count)
next
  assume a: "\<not> isna (row_get row ''url'') \<and> strip (py_str (row_get row ''url'')) \<noteq> []
        \<and> strip (py_str (row_get row ''url'')) \<in> set (map url (jobs db))"
  then have "\<not> url_rejected row" by (simp add: url_rejected_def)
  from store_row_duplicate[OF this, of db "clock i" c] a
  show "store_rows clock i (row # rows) (db, c)
        = store_rows clock (i + 1) rows (db, c\<lparr>skipped_due_to_duplicate := skipped_due_to_duplicate c + 1\<rparr>)"
    by simp
next
  assume "reachable db \<and> ''url'' \<in> set (columns df) \<and> records df = [r1, r2]
        \<and> row_get r1 ''url'' = Str u \<and> row_get r2 ''url'' = Str u \<and> strip u \<noteq> []
        \<and> strip u \<notin> set (map url (jobs db))"
  then show "snd (store_jobs clock db (Some df)) = 1"
    using store_jobs_same_url_twice[of db df r1 r2 u clock] by blast
next
  assume "\<forall>row\<in>set (records df'). isna (row_get row ''url'') \<or> strip (py_str (row_get row ''url'')) = []
          \<or> strip (py_str (row_get row ''url'')) \<in> set (map url (jobs db))"
  then show "store_jobs clock db (Some df') = (db, 0)" by (rule store_jobs_nothing_new)
qed

lemma example_store:
  "store_jobs example_clock empty_db (Some (example_df [''a'', ''a''])) =
     (\<lparr>reachable = True,
       jobs = [\<lparr>id_col = 1, title = ''Data Engineer'', company = ''Acme'', location = ''Remote'',
                skills = ''python, sql'', date_posted = ''3 days ago'', parsed_date = None,
                source = ''Indeed'', search_keyword = ''python'', url = ''a'',
                scraped_at = ''2026-11-04 12:00:00''\<rparr>],
       last_id = 1\<rparr>, 1)"
  by (simp add: store_jobs_def store_jobs_log_def example_df_def df_empty_def required_cols_def
      connect_def empty_db_def store_row_def row_get_def example_row_def isna_def py_str_def
      strip_def is_space_def execute_insert_def data_tuple_of_def no_counts_def example_clock_def)

theorem store_jobs_one_row_per_url_witness:
  "snd (store_jobs example_clock empty_db (Some (example_df [''a'', ''a'']))) = 1
   \<and> store_jobs example_clock (fst (store_jobs example_clock empty_db (Some (example_df [''a'', ''a'']))))
        (Some (example_df [''a'']))
      = (fst (store_jobs example_clock empty_db (Some (example_df [''a'', ''a'']))), 0)
   \<and> distinct (map url (jobs (store_calls empty_db
        [(example_clock, Some (example_df [''a'', ''a''])), (example_clock, Some (example_df [''a'']))])))"
proof -
  let ?db1 = "fst (store_jobs example_clock empty_db (Some (example_df [''a'', ''a''])))"
  have u: "row_get (example_row ''a'') ''url'' = Str ''a''" "strip ''a'' = ''a''"
    by (simp_all add: row_get_def example_row_def strip_def is_space_def)
  have h1: "distinct (map url (jobs empty_db))" by (simp add: empty_db_def)
  have h2: "reachable empty_db \<and> ''url'' \<in> set (columns (example_df [''a'', ''a'']))
        \<and> records (example_df [''a'', ''a'']) = [example_row ''a'', example_row ''a'']
        \<and> row_get (example_row ''a'') ''url'' = Str ''a'' \<and> row_get (example_row ''a'') ''url'' = Str ''a''
        \<and> strip ''a'' \<noteq> [] \<and> strip ''a'' \<notin> set (map url (jobs empty_db))"
    by (simp add: u empty_db_def example_df_def required_cols_def)
  have h3: "\<forall>row\<in>set (records (example_df [''a''])). isna (row_get row ''url'')
          \<or> strip (py_str (row_get row ''url'')) = []
          \<or> strip (py_str (row_get row ''url'')) \<in> set (map url (jobs ?db1))"
    unfolding example_store by (simp add: example_df_def u py_str_def)
  show ?thesis
    using h1 h2 h3
      store_jobs_one_row_per_url[of empty_db
        "[(example_clock, Some (example_df [''a'', ''a''])), (example_clock, Some (example_df [''a'']))]"
        example_clock None "example_row ''a''" 0 "[]" no_counts "example_df [''a'', ''a'']"
        "example_row ''a''" "example_row ''a''" "''a''" "example_df [''a'']"]
      store_jobs_one_row_per_url[of ?db1 "[]" example_clock None "example_row ''a''" 0 "[]" no_counts
        "example_df [''a'', ''a'']" "example_row ''a''" "example_row ''a''" "''a''" "example_df [''a'']"]
    by blast
qed

text \<open>
  Claim C10. A record whose url is null, empty or made of whitespace only is counted as
  an error and inserts no row; and every row a store call adds carries the url of one
  of the batch's records with the surrounding whitespace stripped: it is not empty and
  neither begins nor ends with whitespace.
\<close>

theorem store_jobs_url_stripped:
  "((isna (row_get row ''url'') \<or> (\<forall>ch\<in>set (py_str (row_get row ''url'')). is_space ch)) \<longrightarrow>
      store_row ts row (db, c) = (db, c\<lparr>error_rows := error_rows c + 1\<rparr>))
   \<and> (\<forall>j\<in>set (jobs (fst (store_jobs clock db jobs_df))).
        j \<in> set (jobs db)
        \<or> (\<exists>df row. jobs_df = Some df \<and> row \<in> set (records df)
              \<and> url j = strip (py_str (row_get row ''url''))
              \<and> url j \<noteq> [] \<and> \<not> is_space (hd (url j)) \<and> \<not> is_space (last (url j))))"
proof (intro conjI impI ballI)
  assume "isna (row_get row ''url'') \<or> (\<forall>ch\<in>set (py_str (row_get row ''url'')). is_space ch)"
  then have "url_rejected row" by (simp add: url_rejected_def strip_empty_iff)
  then show "store_row ts row (db, c) = (db, c\<lparr>error_rows := error_rows c + 1\<rparr>)"
    by (rule store_row_rejected)
next
  fix j
  assume j: "j \<in> set (jobs (fst (store_jobs clock db jobs_df)))"
  show "j \<in> set (jobs db)
        \<or> (\<exists>df row. jobs_df = Some df \<and> row \<in> set (records df)
              \<and> url j = strip (py_str (row_get row ''url''))
              \<and> url j \<noteq> [] \<and> \<not> is_space (hd (url j)) \<and> \<not> is_space (last (url j)))"
  proof (cases "j \<in> set (jobs db)")
    case True
    then show ?thesis by simp
  next
    case False
    from store_jobs_new_urls[OF j False] show ?thesis by blast
  qed
qed

lemma example_store_padded:
  "map url (jobs (fst (store_jobs example_clock empty_db (Some (example_df ['' a '', ''  ''])))))
     = [''a'']"
  by (simp add: store_jobs_def store_jobs_log_def example_df_def df_empty_def required_cols_def
      connect_def empty_db_def store_row_def row_get_def example_row_def isna_def py_str_def
      strip_def is_space_def execute_insert_def data_tuple_of_def no_counts_def example_clock_def)

theorem store_jobs_url_stripped_witness:
  "store_row ''2026-11-04 12:00:00'' (example_row ''  '') (empty_db, no_counts)
     = (empty_db, no_counts\<lparr>error_rows := 1\<rparr>)
   \<and> map url (jobs (fst (store_jobs example_clock empty_db (Some (example_df ['' a '', ''  ''])))))
     = [''a'']
   \<and> strip (py_str (row_get (example_row '' a '') ''url'')) = ''a''"
proof -
  have h: "isna (row_get (example_row ''  '') ''url'')
      \<or> (\<forall>ch\<in>set (py_str (row_get (example_row ''  '') ''url'')). is_space ch)"
    by (simp add: row_get_def example_row_def py_str_def is_space_def)
  have e: "jobs empty_db = []" "error_rows no_counts = 0" by (simp_all add: empty_db_def no_counts_def)
  have s: "strip (py_str (row_get (example_row '' a '') ''url'')) = ''a''"
    by (simp add: row_get_def example_row_def py_str_def strip_def is_space_def)
  show ?thesis
    using h s example_store_padded
      store_jobs_url_stripped[of "example_row ''  ''" "''2026-11-04 12:00:00''" empty_db no_counts
        example_clock "Some (example_df ['' a '', ''  ''])"]
    by (simp add: e)
qed


section \<open>Properties of fetch\_jobs\<close>






















lemma example_fetch_wild: "map search_keyword (fetch_jobs example_db (Some ''j_v'') None) = [''java'']"
  by code_simp

lemma example_no_sub: "\<not> str_in (lower ''j_v'') (lower ''java'')"
  by code_simp





section \<open>Properties of extract\_skills\_from\_text\<close>

lemma fold_insert_if:
  "fold (\<lambda>x A. if Q x then A else if P x then insert x A else A) xs A0
     = A0 \<union> {x \<in> set xs. \<not> Q x \<and> P x}"
  by (induction xs arbitrary: A0) auto

lemma set_COMMON_SKILLS: "set COMMON_SKILLS = set COMMON_SKILLS_literal"
  by (simp add: COMMON_SKILLS_def)

lemma find_skills_eq:
  "find_skills text = {skill \<in> set COMMON_SKILLS. skill \<noteq> [] \<and> skill_found text skill}"
  unfolding find_skills_def by (simp add: fold_insert_if)

lemma finite_find_skills: "finite (find_skills text)"
  by (simp add: find_skills_eq)

lemma extract_skills_closed_form:
  "extract_skills_from_text (Some raw) =
     (if raw = [] then [] else sorted_list_of_set (normalize_skill ` find_skills (lower raw)))"
  by (simp add: extract_skills_from_text_def)

lemma set_extract_skills:
  "set (extract_skills_from_text (Some raw)) =
     (if raw = [] then {} else normalize_skill ` find_skills (lower raw))"
  by (simp add: extract_skills_closed_form finite_find_skills)

lemma extract_skills_sorted_distinct:
  "sorted (extract_skills_from_text text_blob) \<and> distinct (extract_skills_from_text text_blob)"
  by (cases text_blob) (simp_all add: extract_skills_from_text_def)


lemma norm_no_dot_js: "list_all (\<lambda>skill. \<not> str_in ''.js'' (normalize_skill skill)) COMMON_SKILLS_literal"
  by code_simp

lemma none_found: "list_all (\<lambda>skill. \<not> skill_found (lower ''We are going places'') skill) COMMON_SKILLS_literal"
  by code_simp

lemma no_empty_skill: "[] \<notin> set COMMON_SKILLS"
  by (simp add: set_COMMON_SKILLS COMMON_SKILLS_literal_def)


lemma found_iff:
  "skill \<in> set COMMON_SKILLS \<Longrightarrow> skill \<in> find_skills text \<longleftrightarrow> skill_found text skill"
  using no_empty_skill by (auto simp: find_skills_eq)

lemma normalized_no_dot_js:
  "skill \<in> set COMMON_SKILLS \<Longrightarrow> \<not> str_in ''.js'' (normalize_skill skill)"
  using norm_no_dot_js by (simp add: list_all_iff set_COMMON_SKILLS del: str_in.simps)

text \<open>
  Claim C8. The result of extract\_skills\_from\_text is sorted and free of duplicates;
  it is determined by the set of matched vocabulary tokens alone (the sorted listing of
  their normalized spellings), so neither the order of the vocabulary nor the iteration
  order of a Python set can change it; a missing or empty text and a text without any
  match give the empty list. No step of the function can raise on a string.
\<close>

theorem extract_skills_sorted_set:
  "sorted (extract_skills_from_text text_blob) \<and> distinct (extract_skills_from_text text_blob)
   \<and> extract_skills_from_text None = [] \<and> extract_skills_from_text (Some []) = []
   \<and> (raw \<noteq> [] \<longrightarrow>
        extract_skills_from_text (Some raw)
          = sorted_list_of_set
              (normalize_skill ` {skill \<in> set COMMON_SKILLS. skill \<noteq> [] \<and> skill_found (lower raw) skill}))
   \<and> ((\<forall>skill\<in>set COMMON_SKILLS. \<not> skill_found (lower raw) skill) \<longrightarrow>
        extract_skills_from_text (Some raw) = [])"
proof (intro conjI impI)
  show "sorted (extract_skills_from_text text_blob)" "distinct (extract_skills_from_text text_blob)"
    using extract_skills_sorted_distinct by simp_all
  show "extract_skills_from_text None = []" "extract_skills_from_text (Some []) = []"
    by (simp_all add: extract_skills_from_text_def)
next
  assume "raw \<noteq> []"
  then show "extract_skills_from_text (Some raw)
          = sorted_list_of_set
              (normalize_skill ` {skill \<in> set COMMON_SKILLS. skill \<noteq> [] \<and> skill_found (lower raw) skill})"
    by (simp add: extract_skills_closed_form find_skills_eq)
next
  assume "\<forall>skill\<in>set COMMON_SKILLS. \<not> skill_found (lower raw) skill"
  then have "find_skills (lower raw) = {}" by (auto simp: find_skills_eq)
  then show "extract_skills_from_text (Some raw) = []"
    by (simp add: extract_skills_closed_form)
qed

lemma example_cpp: "extract_skills_from_text (Some ''Senior C++ Engineer'') = [''c++'']"
  by code_simp

theorem extract_skills_sorted_set_witness:
  "extract_skills_from_text (Some ''We are going places'') = []
   \<and> extract_skills_from_text (Some ''Senior C++ Engineer'') = [''c++'']
   \<and> sorted (extract_skills_from_text (Some ''Senior C++ Engineer''))
   \<and> distinct (extract_skills_from_text (Some ''Senior C++ Engineer''))"
proof -
  have h: "\<forall>skill\<in>set COMMON_SKILLS. \<not> skill_found (lower ''We are going places'') skill"
    using none_found by (simp add: list_all_iff set_COMMON_SKILLS)
  show ?thesis
    using h example_cpp
      extract_skills_sorted_set[of "Some ''Senior C++ Engineer''" "''We are going places''"]
    by blast
qed



text \<open>
  Claim C9. Whenever \<open>node.js\<close> occurs in the lower-cased text, the result contains
  \<open>nodejs\<close> and does not contain \<open>node.js\<close>. More generally every matched token
  enters the result under its normalized spelling, given by the function
  normalize\_skill, and no token of the result contains \<open>.js\<close>.
\<close>

theorem extract_skills_canonical:
  "(str_in ''node.js'' (lower raw) \<longrightarrow>
        ''nodejs'' \<in> set (extract_skills_from_text (Some raw))
        \<and> ''node.js'' \<notin> set (extract_skills_from_text (Some raw)))
   \<and> (\<forall>skill\<in>set COMMON_SKILLS. raw \<noteq> [] \<and> skill_found (lower raw) skill \<longrightarrow>
        normalize_skill skill \<in> set (extract_skills_from_text (Some raw)))
   \<and> (\<forall>x\<in>set (extract_skills_from_text text_blob). \<not> str_in ''.js'' x)
   \<and> normalize_skill ''node.js'' = ''nodejs''"
proof -
  have nd: "\<not> str_in ''.js'' x" if "x \<in> set (extract_skills_from_text t)" for x t
  proof (cases t)
    case None
    with that show ?thesis by (simp add: extract_skills_from_text_def)
  next
    case (Some r)
    with that obtain skill where "skill \<in> set COMMON_SKILLS" "x = normalize_skill skill"
      by (auto simp: set_extract_skills find_skills_eq split: if_splits)
    then show ?thesis using normalized_no_dot_js by blast
  qed
  have norm: "normalize_skill ''node.js'' = ''nodejs''"
    by (simp add: normalize_skill_def)
  have mem: "normalize_skill skill \<in> set (extract_skills_from_text (Some raw))"
    if "skill \<in> set COMMON_SKILLS" "raw \<noteq> []" "skill_found (lower raw) skill" for skill
    using that found_iff[OF that(1), of "lower raw"] by (simp add: set_extract_skills)
  have node: "''nodejs'' \<in> set (extract_skills_from_text (Some raw))
        \<and> ''node.js'' \<notin> set (extract_skills_from_text (Some raw))"
    if s: "str_in ''node.js'' (lower raw)"
  proof -
    have ne: "raw \<noteq> []" using s by (auto simp: lower_def)
    have v: "''node.js'' \<in> set COMMON_SKILLS"
      by (simp add: set_COMMON_SKILLS COMMON_SKILLS_literal_def)
    have f: "skill_found (lower raw) ''node.js''"
      using s by (simp add: skill_found_def tricky_skills_def del: str_in.simps)
    have "str_in ''.js'' ''node.js''" by simp
    then have "''node.js'' \<notin> set (extract_skills_from_text (Some raw))" using nd by blast
    then show ?thesis using mem[OF v ne f] norm by simp
  qed
  show ?thesis using nd norm mem node by blast
qed

theorem extract_skills_canonical_witness:
  "str_in ''node.js'' (lower ''Backend developer (Node.js)'')
   \<and> ''nodejs'' \<in> set (extract_skills_from_text (Some ''Backend developer (Node.js)''))
   \<and> ''node.js'' \<notin> set (extract_skills_from_text (Some ''Backend developer (Node.js)''))"
proof -
  have h: "str_in ''node.js'' (lower ''Backend developer (Node.js)'')" by code_simp
  show ?thesis
    using h extract_skills_canonical[of "''Backend developer (Node.js)''"] by blast
qed

section \<open>Properties of analyze\_skills\<close>

lemma counter_get_add: "counter_get (counter_add k c) t = counter_get c t + (if k = t then 1 else 0)"
  by (induction c) (auto simp: counter_get_def)

lemma keys_counter_add: "fst ` set (counter_add k c) = insert k (fst ` set c)"
proof (induction c)
  case Nil
  show ?case by simp
next
  case (Cons kv c)
  obtain k' n where kv: "kv = (k', n)" by (cases kv)
  show ?case
  proof (cases "k = k'")
    case True
    then show ?thesis by (simp add: kv insert_absorb)
  next
    case False
    then show ?thesis using Cons.IH by (simp add: kv insert_commute)
  qed
qed

lemma distinct_counter_add: "distinct (map fst c) \<Longrightarrow> distinct (map fst (counter_add k c))"
  by (induction c) (auto simp: keys_counter_add)

lemma counter_get_foldl:
  "counter_get (foldl (\<lambda>c k. counter_add k c) c0 xs) t = counter_get c0 t + count_list xs t"
  by (induction xs arbitrary: c0) (auto simp: counter_get_add)

lemma distinct_foldl:
  "distinct (map fst c0) \<Longrightarrow> distinct (map fst (foldl (\<lambda>c k. counter_add k c) c0 xs))"
  by (induction xs arbitrary: c0) (auto simp: distinct_counter_add)

lemma counter_get_Counter: "counter_get (Counter xs) t = count_list xs t"
  by (simp add: Counter_def counter_get_foldl) (simp add: counter_get_def)

lemma distinct_Counter: "distinct (map fst (Counter xs))"
  by (simp add: Counter_def distinct_foldl)

lemma fold_extend: "fold (\<lambda>e acc. acc @ f e) es acc0 = acc0 @ concat (map f es)"
  by (induction es arbitrary: acc0) auto

lemma lower_Nil_iff: "lower s = [] \<longleftrightarrow> s = []"
  by (simp add: lower_def)

lemma filter_nonempty_tokens:
  "filter (\<lambda>x. x \<noteq> []) (map (\<lambda>f. lower (strip f)) (filter (\<lambda>f. strip f \<noteq> []) fs))
     = filter (\<lambda>x. x \<noteq> []) (map (\<lambda>f. lower (strip f)) fs)"
  by (induction fs) (auto simp: lower_Nil_iff)

lemma brackets_iff:
  "prefix ''['' s \<and> suffix '']'' s \<longleftrightarrow> s \<noteq> [] \<and> hd s = CHR ''['' \<and> last s = CHR '']'' \<and> 2 \<le> length s"
proof (cases s)
  case Nil
  then show ?thesis by simp
next
  case (Cons a as)
  show ?thesis
  proof (cases as rule: rev_cases)
    case Nil
    then show ?thesis using Cons by (auto simp: suffix_def)
  next
    case (snoc bs b)
    then show ?thesis using Cons by (auto simp: suffix_def)
  qed
qed

lemma current_skills_tokens: "filter (\<lambda>s. s \<noteq> []) (current_skills e) = entry_tokens e"
proof (cases e)
  case Missing
  then show ?thesis by (simp add: current_skills_def entry_tokens_def)
next
  case (Text s)
  have "(if prefix ''['' (strip s) \<and> suffix '']'' (strip s) then butlast (drop 1 (strip s)) else strip s)
      = unbracket (strip s)"
    unfolding unbracket_def brackets_iff by (simp add: drop_Suc)
  then show ?thesis
    using Text by (simp add: current_skills_def entry_tokens_def filter_nonempty_tokens)
next
  case (Listed items)
  then show ?thesis by (simp add: current_skills_def entry_tokens_def filter_nonempty_tokens)
next
  case Other
  then show ?thesis by (simp add: current_skills_def entry_tokens_def)
qed

lemma concat_dropna:
  "concat (map entry_tokens (filter (\<lambda>e. e \<noteq> Missing) es)) = concat (map entry_tokens es)"
  by (induction es) (auto simp: entry_tokens_def)

lemma analyze_skills_flat:
  "analyze_skills (Some entries) = Counter (concat (map entry_tokens entries))"
proof -
  let ?d = "filter (\<lambda>e. e \<noteq> Missing) entries"
  have flat: "fold (\<lambda>skill_entry all. all @ filter (\<lambda>s. s \<noteq> []) (current_skills skill_entry)) ?d []
      = concat (map entry_tokens ?d)"
    by (simp add: fold_extend current_skills_tokens)
  show ?thesis
  proof (cases "?d = []")
    case True
    then have e: "concat (map entry_tokens entries) = []"
      using concat_dropna[of entries] by simp
    show ?thesis unfolding e using True by (simp add: analyze_skills_def)
  next
    case False
    then show ?thesis using flat concat_dropna[of entries] by (simp add: analyze_skills_def)
  qed
qed

text \<open>
  Claim C7. For every sequence of entries and every token, the count that
  analyze\_skills reports is the number of times the token occurs among the fragments
  of all entries as the specification describes them (entry\_tokens); each token has
  one key; and the two entries \<open>python, sql\<close> and \<open>python, go\<close> give python 2,
  sql 1, go 1.
\<close>

theorem analyze_skills_counts:
  "counter_get (analyze_skills (Some entries)) t = count_list (concat (map entry_tokens entries)) t
   \<and> distinct (map fst (analyze_skills (Some entries)))
   \<and> analyze_skills None = []
   \<and> analyze_skills (Some [Text ''python, sql'', Text ''python, go''])
        = [(''python'', 2), (''sql'', 1), (''go'', 1)]"
proof (intro conjI)
  show "counter_get (analyze_skills (Some entries)) t = count_list (concat (map entry_tokens entries)) t"
    by (simp add: analyze_skills_flat counter_get_Counter)
  show "distinct (map fst (analyze_skills (Some entries)))"
    by (simp add: analyze_skills_flat distinct_Counter)
  show "analyze_skills None = []" by (simp add: analyze_skills_def Counter_def)
  show "analyze_skills (Some [Text ''python, sql'', Text ''python, go''])
        = [(''python'', 2), (''sql'', 1), (''go'', 1)]"
    by code_simp
qed


end
